theory Spec2Isabelle
  imports Complex_Main "HOL-Library.Product_Lexorder"
begin

section \<open>Data model\<close>

text \<open>
  The recommendation dictionaries of the backend are modelled as records. Prices,
  costs and probabilities are Python floats (or ints) in the source; the model uses
  exact rationals. Every price the scorers compute from an integer cent price is a
  multiple of 0.01, so float comparisons against the literals of the source agree with
  the exact ones. The free-text fields (\<open>rationale\<close>, chosen at random in the rule-based
  model) are not modelled.
\<close>

datatype error = ValueError string | Exception string

text \<open>
  A market snapshot as \<open>_get_market_data\<close> / \<open>_get_filtered_market_data\<close> build it: every
  key the scorers read is present (the defaults of \<open>market.get\<close> are applied there).
\<close>

record market =
  mkt_id :: string
  title :: string
  yes_bid :: int
  yes_ask :: int
  no_bid :: int
  no_ask :: int
  volume_24h :: int

text \<open>
  A candidate recommendation. \<open>strategy\<close> is absent from what the rule-based model
  emits (the hybrid blend adds it); \<open>id\<close> is never set by a scorer and is read by
  \<open>record_recommendation\<close> with a generated default.
\<close>

record recommendation =
  market_id :: string
  market_title :: string
  action :: string
  probability :: rat
  contracts :: int
  cost :: rat
  target_exit :: rat
  stop_loss :: rat
  confidence :: string
  strategy :: "string option"
  given_id :: "string option"

section \<open>Performance tracker (performance\_tracking.py)\<close>

record perf_record =
  rec_id :: string
  rec_market_id :: string
  rec_strategy :: string
  rec_action :: string
  entry_price :: rat
  rec_target_exit :: rat
  rec_stop_loss :: rat
  rec_confidence :: string
  timestamp :: int
  status :: string
  exit_price :: "rat option"
  exit_timestamp :: "int option"
  result :: "string option"
  profit_loss :: "rat option"
  rec_notes :: string

record aggregate =
  agg_strategy :: string
  win_count :: nat
  loss_count :: nat
  open_count :: nat
  win_rate :: rat
  avg_profit :: rat
  avg_loss :: rat
  total_profit_loss :: rat
  accuracy :: rat
  last_updated :: int

text \<open>
  \<open>performance_data\<close>: the ledger \<open>recommendations\<close> is a dict from strategy to the
  list of its records; \<open>update_recommendation_status\<close> walks it in insertion order, so
  it is an association list here. \<open>performance\<close> is a dict from strategy to aggregate.
  Writing the JSON file (\<open>_save_performance_data\<close>) swallows its own failures and does
  not change the in-memory state, which is what is modelled.
\<close>

record tracker =
  recommendations :: "(string \<times> perf_record list) list"
  performance :: "string \<rightharpoonup> aggregate"

text \<open>\<open>self.performance_data["recommendations"][strategy].append(record)\<close>, creating the
  list when the strategy has none.\<close>

fun append_record :: "string \<Rightarrow> perf_record \<Rightarrow> (string \<times> perf_record list) list
    \<Rightarrow> (string \<times> perf_record list) list" where
  "append_record s r [] = [(s, [r])]"
| "append_record s r ((k, rs) # rest) =
     (if k = s then (k, rs @ [r]) # rest else (k, rs) # append_record s r rest)"

text \<open>
  \<open>record_recommendation\<close>. A falsy argument (\<open>None\<close> or the empty dict) is \<open>None\<close>.
  \<open>gen_id\<close> is the generated default id (it is built from the clock and a hash) and
  \<open>now\<close> is \<open>int(time.time())\<close>.
\<close>

definition record_recommendation :: "tracker \<Rightarrow> recommendation option \<Rightarrow> string \<Rightarrow> int \<Rightarrow> tracker" where
  "record_recommendation tr recommendation gen_id now =
     (case recommendation of
        None \<Rightarrow> tr
      | Some rc \<Rightarrow>
          let recommendation_id = (case given_id rc of Some i \<Rightarrow> i | None \<Rightarrow> gen_id);
              strat = (case strategy rc of Some s \<Rightarrow> s | None \<Rightarrow> ''unknown'');
              record = \<lparr> rec_id = recommendation_id,
                         rec_market_id = market_id rc,
                         rec_strategy = strat,
                         rec_action = action rc,
                         entry_price = probability rc,
                         rec_target_exit = target_exit rc,
                         rec_stop_loss = stop_loss rc,
                         rec_confidence = confidence rc,
                         timestamp = now,
                         status = ''open'',
                         exit_price = None,
                         exit_timestamp = None,
                         result = None,
                         profit_loss = None,
                         rec_notes = [] \<rparr>
          in tr\<lparr>recommendations := append_record strat record (recommendations tr)\<rparr>)"

text \<open>The body of the update, applied to the record found (lines 123 to 147).\<close>

definition apply_update :: "string \<Rightarrow> rat option \<Rightarrow> string option \<Rightarrow> int \<Rightarrow> perf_record \<Rightarrow> perf_record" where
  "apply_update new_status exit_price_arg notes_arg now r =
     (let r1 = r\<lparr>status := new_status\<rparr>;
          r2 = (case exit_price_arg of
                  None \<Rightarrow> r1
                | Some x \<Rightarrow>
                    if rec_action r = ''YES''
                    then r1\<lparr>exit_price := Some x, exit_timestamp := Some now,
                            result := Some (if x > entry_price r then ''win'' else ''loss''),
                            profit_loss := Some (x - entry_price r)\<rparr>
                    else r1\<lparr>exit_price := Some x, exit_timestamp := Some now,
                            result := Some (if x < entry_price r then ''win'' else ''loss''),
                            profit_loss := Some (entry_price r - x)\<rparr>)
      in (case notes_arg of
            None \<Rightarrow> r2
          | Some n \<Rightarrow> if n = [] then r2 else r2\<lparr>rec_notes := n\<rparr>))"

text \<open>The inner loop: the first record of the list whose id matches is updated.\<close>

fun update_in_list :: "string \<Rightarrow> (perf_record \<Rightarrow> perf_record) \<Rightarrow> perf_record list
    \<Rightarrow> perf_record list option" where
  "update_in_list rid f [] = None"
| "update_in_list rid f (r # rs) =
     (if rec_id r = rid then Some (f r # rs)
      else (case update_in_list rid f rs of None \<Rightarrow> None | Some rs' \<Rightarrow> Some (r # rs')))"

text \<open>The outer loop over the strategies; returns the strategy whose list held the
  record, with the new ledger.\<close>

fun update_in_ledger :: "string \<Rightarrow> (perf_record \<Rightarrow> perf_record) \<Rightarrow> (string \<times> perf_record list) list
    \<Rightarrow> (string \<times> (string \<times> perf_record list) list) option" where
  "update_in_ledger rid f [] = None"
| "update_in_ledger rid f ((s, rs) # rest) =
     (case update_in_list rid f rs of
        Some rs' \<Rightarrow> Some (s, (s, rs') # rest)
      | None \<Rightarrow> (case update_in_ledger rid f rest of
                   None \<Rightarrow> None
                 | Some (s', rest') \<Rightarrow> Some (s', (s, rs) # rest')))"

definition py_sum :: "rat list \<Rightarrow> rat" where
  "py_sum xs = foldl (+) 0 xs"

definition compute_aggregate :: "string \<Rightarrow> perf_record list \<Rightarrow> int \<Rightarrow> aggregate" where
  "compute_aggregate strat recs now =
     (let wins = length (filter (\<lambda>r. result r = Some ''win'') recs);
          losses = length (filter (\<lambda>r. result r = Some ''loss'') recs);
          opens = length (filter (\<lambda>r. status r = ''open'') recs);
          rate = (if wins + losses > 0 then (of_nat wins / of_nat (wins + losses)) * 100 else 0);
          profits = map (\<lambda>r. the (profit_loss r))
                      (filter (\<lambda>r. result r = Some ''win'' \<and> profit_loss r \<noteq> None) recs);
          losses_l = map (\<lambda>r. the (profit_loss r))
                      (filter (\<lambda>r. result r = Some ''loss'' \<and> profit_loss r \<noteq> None) recs);
          closed_recs = filter (\<lambda>r. status r = ''closed'') recs
      in \<lparr> agg_strategy = strat,
           win_count = wins,
           loss_count = losses,
           open_count = opens,
           win_rate = rate,
           avg_profit = (if profits \<noteq> [] then py_sum profits / of_nat (length profits) else 0),
           avg_loss = (if losses_l \<noteq> [] then py_sum losses_l / of_nat (length losses_l) else 0),
           total_profit_loss = py_sum profits + py_sum losses_l,
           accuracy = (if closed_recs \<noteq> [] then (of_nat wins / of_nat (length closed_recs)) * 100 else 0),
           last_updated = now \<rparr>)"

definition update_strategy_performance :: "tracker \<Rightarrow> string \<Rightarrow> int \<Rightarrow> tracker" where
  "update_strategy_performance tr strat now =
     (case map_of (recommendations tr) strat of
        None \<Rightarrow> tr
      | Some recs \<Rightarrow> tr\<lparr>performance := (performance tr)(strat \<mapsto> compute_aggregate strat recs now)\<rparr>)"

text \<open>
  \<open>update_recommendation_status\<close>: the boolean result and the tracker afterwards.
  \<open>now\<close> is \<open>int(time.time())\<close>, taken to be the same for the exit timestamp and for
  \<open>last_updated\<close> of the aggregate. An absent \<open>exit_price\<close> or \<open>notes\<close> argument is \<open>None\<close>;
  \<open>if notes:\<close> also skips the empty string.
\<close>

definition update_recommendation_status ::
  "tracker \<Rightarrow> string \<Rightarrow> string \<Rightarrow> rat option \<Rightarrow> string option \<Rightarrow> int \<Rightarrow> bool \<times> tracker" where
  "update_recommendation_status tr recommendation_id new_status exit_price_arg notes_arg now =
     (case update_in_ledger recommendation_id
             (apply_update new_status exit_price_arg notes_arg now) (recommendations tr) of
        None \<Rightarrow> (False, tr)
      | Some (strat, ledger') \<Rightarrow>
          (True, update_strategy_performance (tr\<lparr>recommendations := ledger'\<rparr>) strat now))"

text \<open>\<open>get_strategy_performance\<close>: the aggregate returned and the tracker afterwards.\<close>

definition get_strategy_performance :: "tracker \<Rightarrow> string \<Rightarrow> int \<Rightarrow> aggregate \<times> tracker" where
  "get_strategy_performance tr strat now =
     (case performance tr strat of
        None \<Rightarrow> (\<lparr> agg_strategy = strat, win_count = 0, loss_count = 0, open_count = 0,
                    win_rate = 0, avg_profit = 0, avg_loss = 0, total_profit_loss = 0,
                    accuracy = 0, last_updated = now \<rparr>, tr)
      | Some a \<Rightarrow> (a, tr))"

text \<open>The first record with a given id, in the order the update searches the ledger.\<close>

fun find_in_list :: "string \<Rightarrow> perf_record list \<Rightarrow> perf_record option" where
  "find_in_list rid [] = None"
| "find_in_list rid (r # rs) = (if rec_id r = rid then Some r else find_in_list rid rs)"

fun find_record :: "string \<Rightarrow> (string \<times> perf_record list) list \<Rightarrow> perf_record option" where
  "find_record rid [] = None"
| "find_record rid ((s, rs) # rest) =
     (case find_in_list rid rs of Some r \<Rightarrow> Some r | None \<Rightarrow> find_record rid rest)"

definition ledger_ids :: "tracker \<Rightarrow> string set" where
  "ledger_ids tr = {rec_id r | r s rs. (s, rs) \<in> set (recommendations tr) \<and> r \<in> set rs}"

subsection \<open>Example ledgers\<close>

definition empty_tracker :: tracker where
  "empty_tracker = \<lparr> recommendations = [], performance = Map.empty \<rparr>"

definition mk_rec :: "string \<Rightarrow> string \<Rightarrow> string \<Rightarrow> rat \<Rightarrow> recommendation" where
  "mk_rec i m a p = \<lparr> market_id = m, market_title = [], action = a, probability = p,
     contracts = 1, cost = p / 100, target_exit = p + 15, stop_loss = p - 10,
     confidence = ''Medium'', strategy = Some ''momentum'', given_id = Some i \<rparr>"

text \<open>Three recommendations of the momentum strategy are recorded: \<open>r1\<close> (YES at 60),
  \<open>r2\<close> (NO at 40) and \<open>r3\<close> (YES at 50).\<close>

definition tracker_three_open :: tracker where
  "tracker_three_open =
     record_recommendation
       (record_recommendation
          (record_recommendation empty_tracker (Some (mk_rec ''r1'' ''KXBTC-A'' ''YES'' 60)) ''g1'' 100)
          (Some (mk_rec ''r2'' ''KXBTC-B'' ''NO'' 40)) ''g2'' 101)
       (Some (mk_rec ''r3'' ''KXBTC-C'' ''YES'' 50)) ''g3'' 102"

text \<open>\<open>r1\<close> is closed at 70 (a win) and \<open>r3\<close> at 45 (a loss).\<close>

definition tracker_two_closed :: tracker where
  "tracker_two_closed =
     snd (update_recommendation_status
       (snd (update_recommendation_status tracker_three_open ''r1'' ''closed'' (Some 70) None 200))
       ''r3'' ''closed'' (Some 45) None 201)"

text \<open>\<open>r2\<close> is closed at 30 (a win for a NO position): two wins and one loss.\<close>

definition tracker_all_closed :: tracker where
  "tracker_all_closed =
     snd (update_recommendation_status tracker_two_closed ''r2'' ''closed'' (Some 30) None 202)"

text \<open>A ledger holding one win and one loss of the momentum strategy, both closed.\<close>

definition tracker_win_loss :: tracker where
  "tracker_win_loss =
     snd (update_recommendation_status
       (snd (update_recommendation_status
          (record_recommendation
             (record_recommendation empty_tracker (Some (mk_rec ''r1'' ''KXBTC-A'' ''YES'' 60)) ''g1'' 100)
             (Some (mk_rec ''r3'' ''KXBTC-C'' ''YES'' 50)) ''g3'' 102)
          ''r1'' ''closed'' (Some 70) None 200))
       ''r3'' ''closed'' (Some 45) None 201)"

section \<open>Python list helpers\<close>

text \<open>\<open>xs[:n]\<close>: a negative bound counts from the end.\<close>

definition py_take :: "int \<Rightarrow> 'a list \<Rightarrow> 'a list" where
  "py_take n xs = (if 0 \<le> n then take (nat n) xs else take (length xs - nat (- n)) xs)"

text \<open>
  \<open>sorted(xs, key=k, reverse=True)\<close>: CPython reverses the list, sorts it stably in
  ascending key order and reverses the result, so equal keys keep their input order.
\<close>

definition py_sorted_rev :: "('a \<Rightarrow> 'k::linorder) \<Rightarrow> 'a list \<Rightarrow> 'a list" where
  "py_sorted_rev k xs = rev (sort_key k (rev xs))"

text \<open>\<open>round(x, n)\<close> on the exact value, ties to the even neighbour.\<close>

definition py_round :: "rat \<Rightarrow> nat \<Rightarrow> rat" where
  "py_round x n =
     (let s = x * 10 ^ n; fl = \<lfloor>s\<rfloor>; d = s - of_int fl
      in of_int (if d < 1 / 2 then fl else if d > 1 / 2 then fl + 1
                 else if even fl then fl else fl + 1) / 10 ^ n)"

section \<open>Rule-based model (ai\_models/rule\_based\_model.py)\<close>

text \<open>Lines 95 to 128 of the momentum loop body: sizing, cost, exits and the dict.\<close>

definition momentum_build :: "string \<Rightarrow> market \<Rightarrow> rat \<Rightarrow> string \<Rightarrow> rat \<Rightarrow> string \<Rightarrow> recommendation" where
  "momentum_build risk_level m yes_price act prob conf =
     (let n = (if risk_level = ''low'' then 1 else if risk_level = ''medium'' then 3 else 5);
          cst = (if act = ''YES'' then of_int n * yes_price else of_int n * (1 - yes_price));
          tgt = (if act = ''YES'' then min (yes_price + 15 / 100) (99 / 100)
                 else max (yes_price - 15 / 100) (1 / 100));
          stp = (if act = ''YES'' then max (yes_price - 10 / 100) (1 / 100)
                 else min (yes_price + 10 / 100) (99 / 100))
      in \<lparr> market_id = mkt_id m, market_title = title m, action = act,
           probability = py_round prob 1, contracts = n, cost = py_round cst 2,
           target_exit = py_round (tgt * 100) 1, stop_loss = py_round (stp * 100) 1,
           confidence = conf, strategy = None, given_id = None \<rparr>)"

text \<open>The momentum loop body for one market: \<open>None\<close> is the \<open>continue\<close>.\<close>

definition momentum_candidate :: "string \<Rightarrow> market \<Rightarrow> recommendation option" where
  "momentum_candidate risk_level m =
     (let yes_price = of_int (yes_ask m) / 100
      in if yes_price > 65 / 100
         then Some (momentum_build risk_level m yes_price ''YES'' (yes_price * 100)
                      (if yes_price > 8 / 10 then ''High'' else ''Medium''))
         else if yes_price < 35 / 100
         then Some (momentum_build risk_level m yes_price ''NO'' ((1 - yes_price) * 100)
                      (if yes_price < 2 / 10 then ''High'' else ''Medium''))
         else None)"

definition mean_reversion_build :: "string \<Rightarrow> market \<Rightarrow> rat \<Rightarrow> string \<Rightarrow> rat \<Rightarrow> string \<Rightarrow> recommendation" where
  "mean_reversion_build risk_level m yes_price act prob conf =
     (let n = (if risk_level = ''low'' then 1 else if risk_level = ''medium'' then 2 else 4);
          cst = (if act = ''YES'' then of_int n * yes_price else of_int n * (1 - yes_price));
          tgt = (if act = ''YES'' then min (yes_price + 20 / 100) (99 / 100)
                 else max (yes_price - 20 / 100) (1 / 100));
          stp = (if act = ''YES'' then max (yes_price - 5 / 100) (1 / 100)
                 else min (yes_price + 5 / 100) (99 / 100))
      in \<lparr> market_id = mkt_id m, market_title = title m, action = act,
           probability = py_round prob 1, contracts = n, cost = py_round cst 2,
           target_exit = py_round (tgt * 100) 1, stop_loss = py_round (stp * 100) 1,
           confidence = conf, strategy = None, given_id = None \<rparr>)"

definition mean_reversion_candidate :: "string \<Rightarrow> market \<Rightarrow> recommendation option" where
  "mean_reversion_candidate risk_level m =
     (let yes_price = of_int (yes_ask m) / 100
      in if yes_price > 8 / 10
         then Some (mean_reversion_build risk_level m yes_price ''NO'' ((1 - yes_price) * 100)
                      (if yes_price > 9 / 10 then ''Medium'' else ''Low''))
         else if yes_price < 2 / 10
         then Some (mean_reversion_build risk_level m yes_price ''YES'' (yes_price * 100)
                      (if yes_price < 1 / 10 then ''Medium'' else ''Low''))
         else None)"

text \<open>
  The \<open>for\<close> loop of both scorers: a market without a candidate is skipped, a candidate
  is appended, and the loop breaks once the list has reached \<open>max_recommendations\<close>
  (the test comes after the append).
\<close>

fun scan_markets :: "int \<Rightarrow> (market \<Rightarrow> recommendation option) \<Rightarrow> market list
    \<Rightarrow> recommendation list \<Rightarrow> recommendation list" where
  "scan_markets max_recommendations body [] acc = acc"
| "scan_markets max_recommendations body (m # ms) acc =
     (case body m of
        None \<Rightarrow> scan_markets max_recommendations body ms acc
      | Some r \<Rightarrow>
          if int (length (acc @ [r])) \<ge> max_recommendations then acc @ [r]
          else scan_markets max_recommendations body ms (acc @ [r]))"

definition generate_momentum_recommendations :: "market list \<Rightarrow> int \<Rightarrow> string \<Rightarrow> recommendation list" where
  "generate_momentum_recommendations markets max_recommendations risk_level =
     scan_markets max_recommendations (momentum_candidate risk_level)
       (py_take (max_recommendations * 2) (py_sorted_rev volume_24h markets)) []"

definition generate_mean_reversion_recommendations :: "market list \<Rightarrow> int \<Rightarrow> string \<Rightarrow> recommendation list" where
  "generate_mean_reversion_recommendations markets max_recommendations risk_level =
     scan_markets max_recommendations (mean_reversion_candidate risk_level)
       (py_take (max_recommendations * 2) (py_sorted_rev (\<lambda>x. \<bar>yes_ask x - 50\<bar>) markets)) []"

text \<open>\<open>RuleBasedRecommendationModel.generate_recommendations\<close>.\<close>

definition rule_based_generate_recommendations ::
  "market list \<Rightarrow> string \<Rightarrow> int \<Rightarrow> string \<Rightarrow> recommendation list" where
  "rule_based_generate_recommendations markets_data strat max_recommendations risk_level =
     (if strat = ''momentum''
      then generate_momentum_recommendations markets_data max_recommendations risk_level
      else if strat = ''mean-reversion''
      then generate_mean_reversion_recommendations markets_data max_recommendations risk_level
      else [])"

section \<open>Hybrid model (ai\_models/hybrid\_model.py)\<close>

text \<open>
  The OpenAI model is outside the blend: it is a parameter, a function from the
  arguments of its \<open>generate_recommendations\<close> to the list it returns or the exception
  it raises.
\<close>

type_synonym model = "market list \<Rightarrow> string \<Rightarrow> int \<Rightarrow> string \<Rightarrow> error + recommendation list"

text \<open>
  \<open>int(max_recommendations * 0.4)\<close> and its siblings, with the factor in tenths:
  \<open>int\<close> truncates towards zero. The product is taken exactly here; the float product
  of the source gives the same integer for every count below 90.
\<close>

definition int_of_tenths :: "int \<Rightarrow> int \<Rightarrow> int" where
  "int_of_tenths n k = (if 0 \<le> n then (n * k) div 10 else - ((- n * k) div 10))"

definition confidence_order :: "string \<Rightarrow> int" where
  "confidence_order c =
     (if c = ''High'' then 3 else if c = ''Medium'' then 2 else if c = ''Low'' then 1 else 0)"

text \<open>
  The deduplication loop (lines 175 to 182): the state is the list built so far and the
  market ids seen; the loop breaks after an append that reaches \<open>max_recommendations\<close>.
\<close>

fun dedup_loop :: "int \<Rightarrow> recommendation list \<Rightarrow> recommendation list \<Rightarrow> string list
    \<Rightarrow> recommendation list \<times> string list" where
  "dedup_loop max_recommendations [] unique_recommendations seen_market_ids =
     (unique_recommendations, seen_market_ids)"
| "dedup_loop max_recommendations (r # rs) unique_recommendations seen_market_ids =
     (if market_id r \<notin> set seen_market_ids
      then (if int (length (unique_recommendations @ [r])) \<ge> max_recommendations
            then (unique_recommendations @ [r], market_id r # seen_market_ids)
            else dedup_loop max_recommendations rs (unique_recommendations @ [r])
                   (market_id r # seen_market_ids))
      else dedup_loop max_recommendations rs unique_recommendations seen_market_ids)"

text \<open>The fill loop (lines 197 to 202): the test comes before the append.\<close>

fun fill_loop :: "int \<Rightarrow> recommendation list \<Rightarrow> recommendation list \<Rightarrow> recommendation list" where
  "fill_loop max_recommendations [] unique_recommendations = unique_recommendations"
| "fill_loop max_recommendations (r # rs) unique_recommendations =
     (if int (length unique_recommendations) \<ge> max_recommendations then unique_recommendations
      else fill_loop max_recommendations rs (unique_recommendations @ [r]))"

text \<open>Lines 168 to 205: combine, deduplicate, fill.\<close>

definition blend_unique :: "int \<Rightarrow> recommendation list \<Rightarrow> recommendation list" where
  "blend_unique max_recommendations combined_recommendations =
     (let (unique_recommendations, seen_market_ids) =
            dedup_loop max_recommendations combined_recommendations [] []
      in if int (length unique_recommendations) < max_recommendations
         then (let remaining_recs = filter (\<lambda>r. market_id r \<notin> set seen_market_ids)
                                      combined_recommendations
               in fill_loop max_recommendations
                    (py_sorted_rev (\<lambda>x. confidence_order (confidence x)) remaining_recs)
                    unique_recommendations)
         else unique_recommendations)"

text \<open>
  The two OpenAI calls share one \<open>try\<close>: when the second raises, the first list is
  kept and the second stays empty.
\<close>

definition hybrid_openai_lists :: "bool \<Rightarrow> model \<Rightarrow> market list \<Rightarrow> int \<Rightarrow> int \<Rightarrow> string
    \<Rightarrow> recommendation list \<times> recommendation list" where
  "hybrid_openai_lists openai_enabled openai_model markets_data momentum_count mean_reversion_count risk_level =
     (if openai_enabled
      then (case openai_model markets_data ''momentum'' momentum_count risk_level of
              Inl e \<Rightarrow> ([], [])
            | Inr mom \<Rightarrow>
                (case openai_model markets_data ''mean-reversion'' mean_reversion_count risk_level of
                   Inl e \<Rightarrow> (mom, [])
                 | Inr mr \<Rightarrow> (mom, mr)))
      else ([], []))"

definition generate_hybrid_strategy_recommendations ::
  "bool \<Rightarrow> model \<Rightarrow> market list \<Rightarrow> int \<Rightarrow> string \<Rightarrow> recommendation list" where
  "generate_hybrid_strategy_recommendations openai_enabled openai_model markets_data max_recommendations risk_level =
     (let momentum_count =
            (if risk_level = ''low'' then max 1 (int_of_tenths max_recommendations 4)
             else if risk_level = ''high'' then max 1 (int_of_tenths max_recommendations 7)
             else max 1 (int_of_tenths max_recommendations 5));
          mean_reversion_count = max_recommendations - momentum_count;
          (mom0, mr0) = hybrid_openai_lists openai_enabled openai_model markets_data
                          momentum_count mean_reversion_count risk_level;
          mom1 = (if mom0 = [] \<or> int (length mom0) < momentum_count
                  then rule_based_generate_recommendations markets_data ''momentum''
                         momentum_count risk_level
                  else mom0);
          mr1 = (if mr0 = [] \<or> int (length mr0) < mean_reversion_count
                 then rule_based_generate_recommendations markets_data ''mean-reversion''
                        mean_reversion_count risk_level
                 else mr0);
          momentum_recommendations = map (\<lambda>r. r\<lparr>strategy := Some ''momentum''\<rparr>) mom1;
          mean_reversion_recommendations = map (\<lambda>r. r\<lparr>strategy := Some ''mean-reversion''\<rparr>) mr1
      in blend_unique max_recommendations
           (momentum_recommendations @ mean_reversion_recommendations))"

text \<open>\<open>HybridRecommendationModel.generate_recommendations\<close>.\<close>

definition hybrid_generate_recommendations ::
  "bool \<Rightarrow> model \<Rightarrow> market list \<Rightarrow> string \<Rightarrow> int \<Rightarrow> string \<Rightarrow> recommendation list" where
  "hybrid_generate_recommendations openai_enabled openai_model markets_data strat max_recommendations risk_level =
     (if strat = ''hybrid''
      then generate_hybrid_strategy_recommendations openai_enabled openai_model markets_data
             max_recommendations risk_level
      else (case (if openai_enabled
                  then (case openai_model markets_data strat max_recommendations risk_level of
                          Inl e \<Rightarrow> None
                        | Inr recs \<Rightarrow> if recs \<noteq> [] then Some recs else None)
                  else None) of
              Some recs \<Rightarrow> recs
            | None \<Rightarrow> rule_based_generate_recommendations markets_data strat
                        max_recommendations risk_level))"

subsection \<open>Example markets\<close>

definition mk_market :: "string \<Rightarrow> int \<Rightarrow> int \<Rightarrow> int \<Rightarrow> market" where
  "mk_market i ya na vol = \<lparr> mkt_id = i, title = [], yes_bid = ya - 2, yes_ask = ya,
     no_bid = na - 2, no_ask = na, volume_24h = vol \<rparr>"

definition no_openai :: model where
  "no_openai markets_data strat n risk_level = Inr []"

section \<open>Arbitrage strategy (trading\_strategies.py)\<close>

definition TARGET_SERIES :: "string list" where
  "TARGET_SERIES = [''KXNASDAQ100U'', ''KXINXU'', ''KXETHD'', ''KXETH'', ''KXBTCD'', ''KXBTC'']"

text \<open>\<open>s.startswith(p)\<close> and \<open>p in s\<close> on strings.\<close>

fun starts_with :: "string \<Rightarrow> string \<Rightarrow> bool" where
  "starts_with s [] = True"
| "starts_with [] (p # ps) = False"
| "starts_with (c # cs) (p # ps) = (c = p \<and> starts_with cs ps)"

fun str_contains :: "string \<Rightarrow> string \<Rightarrow> bool" where
  "str_contains [] p = (p = [])"
| "str_contains (c # cs) p = (starts_with (c # cs) p \<or> str_contains cs p)"

text \<open>\<open>s.split(sep)\<close> for a one-character separator: there is always at least one part.\<close>

fun split_on :: "char \<Rightarrow> string \<Rightarrow> string list" where
  "split_on sep [] = [[]]"
| "split_on sep (c # cs) =
     (if c = sep then [] # split_on sep cs
      else (case split_on sep cs of [] \<Rightarrow> [[c]] | p # ps \<Rightarrow> (c # p) # ps))"

definition digit_val :: "char \<Rightarrow> nat option" where
  "digit_val c = map_of (zip ''0123456789'' [0, 1, 2, 3, 4, 5, 6, 7, 8, 9]) c"

fun parse_digits :: "string \<Rightarrow> nat \<Rightarrow> nat option" where
  "parse_digits [] acc = Some acc"
| "parse_digits (c # cs) acc =
     (case digit_val c of None \<Rightarrow> None | Some d \<Rightarrow> parse_digits cs (10 * acc + d))"

text \<open>
  The builtin \<open>float(s)\<close> on unsigned decimal numerals (\<open>1920\<close>, \<open>19529.99\<close>), the form
  of the strike part of a market id; \<open>None\<close> is the \<open>ValueError\<close>. Signs, exponents,
  underscores, blanks and \<open>inf\<close>/\<open>nan\<close>, which the builtin also reads, are outside this
  model and count as a \<open>ValueError\<close> here.
\<close>

definition py_float :: "string \<Rightarrow> rat option" where
  "py_float s =
     (let ip = takeWhile (\<lambda>c. c \<noteq> CHR ''.'') s;
          rest = dropWhile (\<lambda>c. c \<noteq> CHR ''.'') s
      in if rest = []
         then (if ip = [] then None else map_option of_nat (parse_digits ip 0))
         else (let fp = tl rest
               in if ip = [] \<and> fp = [] then None
                  else (case (parse_digits ip 0, parse_digits fp 0) of
                          (Some a, Some b) \<Rightarrow> Some (of_nat a + of_nat b / 10 ^ length fp)
                        | _ \<Rightarrow> None)))"

text \<open>\<open>_extract_strike_price\<close>: every failure inside the \<open>try\<close> gives 0.0.\<close>

definition extract_strike_price :: "string \<Rightarrow> rat" where
  "extract_strike_price mid =
     (let parts = split_on (CHR ''-'') mid
      in if length parts < 3 then 0
         else (let strike_part = last parts
               in if starts_with strike_part ''T'' \<or> starts_with strike_part ''B''
                  then (case py_float (tl strike_part) of None \<Rightarrow> 0 | Some v \<Rightarrow> v)
                  else 0))"

text \<open>\<open>range(len(sorted_markets) - 1)\<close> with \<open>sorted_markets[i]\<close>, \<open>sorted_markets[i + 1]\<close>.\<close>

fun adjacent_pairs :: "'a list \<Rightarrow> ('a \<times> 'a) list" where
  "adjacent_pairs (x # y # zs) = (x, y) # adjacent_pairs (y # zs)"
| "adjacent_pairs zs = []"

definition price_range_pair :: "market \<Rightarrow> market \<Rightarrow> recommendation list" where
  "price_range_pair market1 market2 =
     (let market1_yes_price = yes_ask market1;
          market2_no_price = no_ask market2
      in if market1_yes_price > 0 \<and> market2_no_price > 0 \<and> market1_yes_price + market2_no_price < 95
         then (let arb_profit = 100 - (market1_yes_price + market2_no_price)
               in [\<lparr> market_id = mkt_id market1, market_title = title market1, action = ''YES'',
                     probability = of_int market1_yes_price, contracts = 1,
                     cost = of_int market1_yes_price / 100,
                     target_exit = of_int (market1_yes_price + 5),
                     stop_loss = of_int (market1_yes_price - 5),
                     confidence = (if arb_profit > 10 then ''High'' else ''Medium''),
                     strategy = Some ''arbitrage'', given_id = None \<rparr>,
                   \<lparr> market_id = mkt_id market2, market_title = title market2, action = ''NO'',
                     probability = of_int (100 - market2_no_price), contracts = 1,
                     cost = of_int market2_no_price / 100,
                     target_exit = of_int (market2_no_price - 5),
                     stop_loss = of_int (market2_no_price + 5),
                     confidence = (if arb_profit > 10 then ''High'' else ''Medium''),
                     strategy = Some ''arbitrage'', given_id = None \<rparr>])
         else [])"

definition analyze_price_range_arbitrage :: "market list \<Rightarrow> recommendation list" where
  "analyze_price_range_arbitrage markets =
     concat (map (\<lambda>(market1, market2). price_range_pair market1 market2)
               (adjacent_pairs (sort_key (\<lambda>m. extract_strike_price (mkt_id m)) markets)))"

definition index_pair :: "market \<Rightarrow> market \<Rightarrow> recommendation list" where
  "index_pair market1 market2 =
     (let market1_yes_price = yes_ask market1;
          market2_yes_price = yes_ask market2
      in if market1_yes_price > 0 \<and> market2_yes_price > 0 \<and> market1_yes_price < market2_yes_price - 5
         then [\<lparr> market_id = mkt_id market1, market_title = title market1, action = ''YES'',
                 probability = of_int market1_yes_price, contracts = 1,
                 cost = of_int market1_yes_price / 100,
                 target_exit = of_int (market1_yes_price + 10),
                 stop_loss = of_int (market1_yes_price - 5),
                 confidence = ''Medium'', strategy = Some ''arbitrage'', given_id = None \<rparr>,
               \<lparr> market_id = mkt_id market2, market_title = title market2, action = ''NO'',
                 probability = of_int (100 - market2_yes_price), contracts = 1,
                 cost = of_int (100 - market2_yes_price) / 100,
                 target_exit = of_int (market2_yes_price - 10),
                 stop_loss = of_int (market2_yes_price + 5),
                 confidence = ''Medium'', strategy = Some ''arbitrage'', given_id = None \<rparr>]
         else [])"

definition analyze_index_arbitrage :: "market list \<Rightarrow> recommendation list" where
  "analyze_index_arbitrage markets =
     concat (map (\<lambda>(market1, market2). index_pair market1 market2)
               (adjacent_pairs (sort_key (\<lambda>m. extract_strike_price (mkt_id m)) markets)))"

text \<open>\<open>series_markets[series].append(market)\<close>, creating the list for a new series; the
  dict keeps insertion order.\<close>

fun group_market :: "string \<Rightarrow> market \<Rightarrow> (string \<times> market list) list \<Rightarrow> (string \<times> market list) list" where
  "group_market s m [] = [(s, [m])]"
| "group_market s m ((k, ms) # rest) =
     (if k = s then (k, ms @ [m]) # rest else (k, ms) # group_market s m rest)"

definition group_by_series :: "market list \<Rightarrow> (string \<times> market list) list" where
  "group_by_series markets =
     foldl (\<lambda>series_markets m.
              case find (\<lambda>series. str_contains (mkt_id m) series) TARGET_SERIES of
                None \<Rightarrow> series_markets
              | Some series \<Rightarrow> group_market series m series_markets)
       [] markets"

text \<open>\<open>ArbitrageStrategy.analyze\<close>.\<close>

definition arbitrage_analyze :: "market list \<Rightarrow> recommendation list" where
  "arbitrage_analyze markets =
     (if markets = [] then []
      else concat (map (\<lambda>(series, markets_list).
                          if length markets_list < 2 then []
                          else if series \<in> set [''KXETH'', ''KXBTC'']
                          then analyze_price_range_arbitrage markets_list
                          else if series \<in> set [''KXNASDAQ100U'', ''KXINXU'']
                          then analyze_index_arbitrage markets_list
                          else [])
                     (group_by_series markets)))"

section \<open>Strategy manager (strategy\_integration.py)\<close>

text \<open>
  The volatility scorer (which takes a standard deviation) and the sentiment scorer
  (which reads the social feed) are parameters: functions from the market list to the
  list they return or the exception they raise.
\<close>

type_synonym scorer = "market list \<Rightarrow> error + recommendation list"

definition filter_by_risk_level :: "recommendation list \<Rightarrow> string \<Rightarrow> recommendation list" where
  "filter_by_risk_level recs risk_level =
     (if risk_level = ''high'' then recs
      else if risk_level = ''medium'' then filter (\<lambda>r. confidence r \<noteq> ''Low'') recs
      else if risk_level = ''low'' then filter (\<lambda>r. confidence r = ''High'') recs
      else filter (\<lambda>r. confidence r \<noteq> ''Low'') recs)"

definition sort_by_confidence :: "recommendation list \<Rightarrow> recommendation list" where
  "sort_by_confidence recs =
     py_sorted_rev (\<lambda>x. (confidence_order (confidence x), cost x * (- 1))) recs"

text \<open>The candidates of the requested strategy; \<open>None\<close> is the unknown strategy, for
  which the method returns the empty list at once.\<close>

definition strategy_candidates :: "scorer \<Rightarrow> scorer \<Rightarrow> string \<Rightarrow> market list
    \<Rightarrow> (error + recommendation list) option" where
  "strategy_candidates volatility sentiment strat markets =
     (if strat = ''arbitrage'' then Some (Inr (arbitrage_analyze markets))
      else if strat = ''volatility'' then Some (volatility markets)
      else if strat = ''sentiment'' then Some (sentiment markets)
      else if strat = ''combined''
      then Some (let arb_recs = arbitrage_analyze markets
                 in case volatility markets of
                      Inl e \<Rightarrow> Inl e
                    | Inr vol_recs \<Rightarrow>
                        (case sentiment markets of
                           Inl e \<Rightarrow> Inl e
                         | Inr sent_recs \<Rightarrow> Inr (arb_recs @ vol_recs @ sent_recs)))
      else None)"

text \<open>\<open>StrategyManager.get_recommendations\<close>.\<close>

definition strategy_manager_get_recommendations ::
  "scorer \<Rightarrow> scorer \<Rightarrow> string \<Rightarrow> market list \<Rightarrow> int \<Rightarrow> string \<Rightarrow> error + recommendation list" where
  "strategy_manager_get_recommendations volatility sentiment strat markets max_recommendations risk_level =
     (if markets = [] then Inr []
      else (case strategy_candidates volatility sentiment strat markets of
              None \<Rightarrow> Inr []
            | Some (Inl e) \<Rightarrow> Inl e
            | Some (Inr recs) \<Rightarrow>
                Inr (py_take max_recommendations
                       (sort_by_confidence (filter_by_risk_level recs risk_level)))))"

subsection \<open>Example markets of one price-range series\<close>

text \<open>Three Bitcoin range markets with strikes 100, 200 and 300: both adjacent pairs
  are priced below 95 in total.\<close>

definition btc_markets :: "market list" where
  "btc_markets =
     [\<lparr> mkt_id = ''KXBTC-25APR0212-B100'', title = [], yes_bid = 23, yes_ask = 25,
         no_bid = 75, no_ask = 77, volume_24h = 1000 \<rparr>,
      \<lparr> mkt_id = ''KXBTC-25APR0212-B200'', title = [], yes_bid = 40, yes_ask = 42,
         no_bid = 58, no_ask = 60, volume_24h = 1000 \<rparr>,
      \<lparr> mkt_id = ''KXBTC-25APR0212-B300'', title = [], yes_bid = 60, yes_ask = 62,
         no_bid = 38, no_ask = 40, volume_24h = 1000 \<rparr>]"

definition quiet_scorer :: scorer where
  "quiet_scorer markets = Inr []"

section \<open>Recommendation systems and their caches\<close>

text \<open>\<open>str.lower()\<close> on ASCII letters.\<close>

definition lower_char :: "char \<Rightarrow> char" where
  "lower_char c =
     (case map_of (zip ''ABCDEFGHIJKLMNOPQRSTUVWXYZ'' ''abcdefghijklmnopqrstuvwxyz'') c of
        None \<Rightarrow> c | Some l \<Rightarrow> l)"

definition py_lower :: "string \<Rightarrow> string" where
  "py_lower s = map lower_char s"

text \<open>The name of the cache file of a (strategy, risk level) pair, as the caller wrote
  them (the key is not lowered).\<close>

definition cache_key :: "string \<Rightarrow> string \<Rightarrow> string" where
  "cache_key strat risk_level = strat @ ''_'' @ risk_level"

subsection \<open>AIRecommendationSystem (ai\_recommendations.py)\<close>

record cache_data =
  cache_timestamp :: rat
  cache_strategy :: string
  cache_risk_level :: string
  cache_recommendations :: "recommendation list"

text \<open>
  The cache directory: a map from file name to the content last written. An unreadable
  file answers \<open>None\<close> in the source, as an absent one does; a write that fails is
  swallowed and modelled as leaving the directory as it was (\<open>write_ok = False\<close>).
\<close>

type_synonym ai_cache = "string \<rightharpoonup> cache_data"

record ai_config =
  cache_enabled :: bool
  cache_ttl :: rat
  openai_enabled :: bool

definition get_cached_recommendations :: "ai_config \<Rightarrow> ai_cache \<Rightarrow> string \<Rightarrow> string \<Rightarrow> rat
    \<Rightarrow> recommendation list option" where
  "get_cached_recommendations cfg cache strat risk_level now =
     (case cache (cache_key strat risk_level) of
        None \<Rightarrow> None
      | Some cd \<Rightarrow> if now - cache_timestamp cd > cache_ttl cfg then None
                   else Some (cache_recommendations cd))"

definition cache_recommendations_ai :: "ai_cache \<Rightarrow> bool \<Rightarrow> string \<Rightarrow> string
    \<Rightarrow> recommendation list \<Rightarrow> rat \<Rightarrow> ai_cache" where
  "cache_recommendations_ai cache write_ok strat risk_level recs now =
     (if write_ok
      then cache(cache_key strat risk_level \<mapsto>
             \<lparr> cache_timestamp = now, cache_strategy = strat,
               cache_risk_level = risk_level, cache_recommendations = recs \<rparr>)
      else cache)"

definition valid_strategies_ai :: "string list" where
  "valid_strategies_ai = [''momentum'', ''mean-reversion'', ''hybrid'']"

definition valid_risk_levels :: "string list" where
  "valid_risk_levels = [''low'', ''medium'', ''high'']"

text \<open>
  \<open>AIRecommendationSystem.get_recommendations\<close>. \<open>fetch\<close> is the outcome of
  \<open>_get_market_data\<close> (the broker client is outside the model), \<open>openai_model\<close> the OpenAI
  model and \<open>now\<close> the clock at the call. The result is the exception raised, or the
  list returned together with the cache directory afterwards.
\<close>

definition ai_get_recommendations ::
  "ai_config \<Rightarrow> ai_cache \<Rightarrow> (error + market list) \<Rightarrow> model \<Rightarrow> bool \<Rightarrow> rat
    \<Rightarrow> string \<Rightarrow> int \<Rightarrow> string \<Rightarrow> bool \<Rightarrow> error + (recommendation list \<times> ai_cache)" where
  "ai_get_recommendations cfg cache fetch openai_model write_ok now strat max_recommendations risk_level force_refresh =
     (if py_lower strat \<notin> set valid_strategies_ai
      then Inl (ValueError (''Invalid strategy: '' @ strat))
      else if py_lower risk_level \<notin> set valid_risk_levels
      then Inl (ValueError (''Invalid risk level: '' @ risk_level))
      else (case (if cache_enabled cfg \<and> \<not> force_refresh
                  then (case get_cached_recommendations cfg cache strat risk_level now of
                          None \<Rightarrow> None
                        | Some cached \<Rightarrow> if cached \<noteq> [] then Some cached else None)
                  else None) of
              Some cached \<Rightarrow> Inr (py_take max_recommendations cached, cache)
            | None \<Rightarrow>
                (case fetch of
                   Inl e \<Rightarrow> Inl e
                 | Inr markets_data \<Rightarrow>
                     (let recs = hybrid_generate_recommendations (openai_enabled cfg) openai_model
                                   markets_data (py_lower strat) max_recommendations
                                   (py_lower risk_level)
                      in Inr (recs,
                              if cache_enabled cfg
                              then cache_recommendations_ai cache write_ok strat risk_level recs now
                              else cache)))))"

subsection \<open>EnhancedAIRecommendationSystem (enhanced\_ai\_recommendations.py)\<close>





definition valid_strategies :: "string list" where
  "valid_strategies = [''momentum'', ''mean-reversion'', ''hybrid'', ''arbitrage'',
     ''volatility'', ''sentiment'', ''combined'']"




subsection \<open>Example configurations\<close>

definition ai_cfg :: ai_config where
  "ai_cfg = \<lparr> cache_enabled = True, cache_ttl = 900, openai_enabled = False \<rparr>"


text \<open>Collaborators of a system whose broker client fails, and of one whose client
  answers with the three range markets while every scorer of the manager raises.\<close>

definition failing_models :: model where
  "failing_models markets_data strat n risk_level = Inl (Exception ''model down'')"



text \<open>A market priced at 90 cents, and the same market at 50 cents.\<close>

definition hot_market :: market where
  "hot_market = mk_market ''KXBTC-25APR0212-B100'' 90 12 5000"

definition flat_market :: market where
  "flat_market = mk_market ''KXBTC-25APR0212-B100'' 50 52 5000"

text \<open>The market at 90 cents among two others of lower volume and less extreme price.\<close>

definition crowd :: "market list" where
  "crowd = [mk_market ''KXBTC-25APR0212-B300'' 70 32 4000, hot_market,
            mk_market ''KXBTC-25APR0212-B200'' 85 17 3000]"

text \<open>A first call, on an empty cache directory at time 1000, that generates from the
  market at 90 cents; and one that generates from the market at 50 cents.\<close>

definition first_call :: "error + (recommendation list \<times> ai_cache)" where
  "first_call = ai_get_recommendations ai_cfg Map.empty (Inr [hot_market]) no_openai True 1000
     ''momentum'' 5 ''medium'' False"

definition first_call_flat :: "error + (recommendation list \<times> ai_cache)" where
  "first_call_flat = ai_get_recommendations ai_cfg Map.empty (Inr [flat_market]) no_openai True 1000
     ''momentum'' 5 ''medium'' False"

section \<open>Properties of the performance tracker\<close>

lemma update_in_list_absent:
  "rid \<notin> rec_id ` set rs \<Longrightarrow> update_in_list rid f rs = None"
  by (induction rs) auto

lemma update_in_ledger_absent:
  "\<forall>(s, rs) \<in> set l. rid \<notin> rec_id ` set rs \<Longrightarrow> update_in_ledger rid f l = None"
  by (induction l) (auto simp: update_in_list_absent)

lemma apply_update_id: "rec_id (apply_update st xp nt now r) = rec_id r"
  by (simp add: apply_update_def Let_def split: option.splits)

lemma find_in_list_absent: "rid \<notin> rec_id ` set rs \<Longrightarrow> find_in_list rid rs = None"
  by (induction rs) auto

lemma find_record_absent:
  "\<forall>(s, rs) \<in> set l. rid \<notin> rec_id ` set rs \<Longrightarrow> find_record rid l = None"
  by (induction l) (auto simp: find_in_list_absent)

lemma ledger_ids_iff:
  "rid \<notin> ledger_ids tr \<longleftrightarrow> (\<forall>(s, rs) \<in> set (recommendations tr). rid \<notin> rec_id ` set rs)"
  by (auto simp: ledger_ids_def)

lemma update_in_list_found:
  assumes "find_in_list rid rs = Some r" and "\<And>x. rec_id (f x) = rec_id x"
  shows "\<exists>rs'. update_in_list rid f rs = Some rs' \<and> find_in_list rid rs' = Some (f r)"
  using assms by (induction rs) (auto split: if_splits)

lemma update_in_list_none: "find_in_list rid rs = None \<Longrightarrow> update_in_list rid f rs = None"
  by (induction rs) (auto split: if_splits)

lemma update_in_ledger_found:
  assumes "find_record rid l = Some r" and "\<And>x. rec_id (f x) = rec_id x"
  shows "\<exists>s l'. update_in_ledger rid f l = Some (s, l') \<and> find_record rid l' = Some (f r)"
  using assms
proof (induction l)
  case Nil
  then show ?case by simp
next
  case (Cons p l)
  obtain s rs where p: "p = (s, rs)" by (cases p)
  show ?case
  proof (cases "find_in_list rid rs")
    case None
    with Cons p have "find_record rid l = Some r" by simp
    with Cons obtain s' l' where "update_in_ledger rid f l = Some (s', l')" "find_record rid l' = Some (f r)"
      by blast
    with None p show ?thesis by (simp add: update_in_list_none)
  next
    case (Some a)
    with Cons p have "a = r" by simp
    with Some update_in_list_found[of rid rs r f] Cons.prems(2)
    obtain rs' where "update_in_list rid f rs = Some rs'" "find_in_list rid rs' = Some (f r)" by blast
    with p show ?thesis by simp
  qed
qed

lemma update_in_list_append_fresh:
  "rid \<notin> rec_id ` set rs \<Longrightarrow> rec_id x = rid \<Longrightarrow> update_in_list rid f (rs @ [x]) = Some (rs @ [f x])"
  by (induction rs) auto

lemma update_in_ledger_append_fresh:
  assumes "\<forall>(s, rs) \<in> set l. rid \<notin> rec_id ` set rs" and "rec_id x = rid"
  shows "update_in_ledger rid f (append_record s x l) = Some (s, append_record s (f x) l)"
  using assms
  by (induction l) (auto simp: update_in_list_append_fresh update_in_list_absent)

lemma find_in_list_append_fresh:
  "rid \<notin> rec_id ` set rs \<Longrightarrow> rec_id x = rid \<Longrightarrow> find_in_list rid (rs @ [x]) = Some x"
  by (induction rs) auto

lemma find_record_append_fresh:
  assumes "\<forall>(s, rs) \<in> set l. rid \<notin> rec_id ` set rs" and "rec_id x = rid"
  shows "find_record rid (append_record s x l) = Some x"
  using assms
  by (induction l) (auto simp: find_in_list_append_fresh find_in_list_absent)

lemma map_of_append_record:
  "map_of (append_record s x l) s = Some ((case map_of l s of None \<Rightarrow> [] | Some rs \<Rightarrow> rs) @ [x])"
  by (induction l) auto

lemmas ex_defs = tracker_win_loss_def tracker_all_closed_def tracker_two_closed_def
  tracker_three_open_def

lemmas tracker_defs = record_recommendation_def empty_tracker_def mk_rec_def
     update_recommendation_status_def apply_update_def update_strategy_performance_def
     compute_aggregate_def py_sum_def get_strategy_performance_def Let_def

text \<open>
  Claim C8. For every id that no record of the ledger carries,
  \<open>update_recommendation_status\<close> returns \<open>False\<close> (it raises nothing: the model is
  total and has no error branch) and leaves the whole tracker, ledger and aggregates,
  as it was.
\<close>

theorem update_unknown_id:
  assumes "rid \<notin> ledger_ids tr"
  shows "update_recommendation_status tr rid new_status xp nt now = (False, tr)"
  using assms
  by (simp add: update_recommendation_status_def ledger_ids_iff update_in_ledger_absent)

theorem update_unknown_id_witness:
  "''r9'' \<notin> ledger_ids tracker_three_open \<and>
   update_recommendation_status tracker_three_open ''r9'' ''closed'' (Some 70) None 200
     = (False, tracker_three_open)"
proof -
  have h: "''r9'' \<notin> ledger_ids tracker_three_open"
    by (simp add: ledger_ids_iff tracker_three_open_def tracker_defs)
  show ?thesis using h update_unknown_id [OF h] by simp
qed

text \<open>
  Claim C10. For a strategy with no entry in the performance map,
  \<open>get_strategy_performance\<close> returns the zeroed aggregate (stamped with the current
  time) and the tracker is unchanged.
\<close>

theorem get_strategy_performance_missing:
  assumes "performance tr strat = None"
  shows "get_strategy_performance tr strat now =
     (\<lparr> agg_strategy = strat, win_count = 0, loss_count = 0, open_count = 0,
        win_rate = 0, avg_profit = 0, avg_loss = 0, total_profit_loss = 0,
        accuracy = 0, last_updated = now \<rparr>, tr)"
  using assms by (simp add: get_strategy_performance_def)

theorem get_strategy_performance_missing_witness:
  "performance tracker_two_closed ''sentiment'' = None \<and>
   get_strategy_performance tracker_two_closed ''sentiment'' 300 =
     (\<lparr> agg_strategy = ''sentiment'', win_count = 0, loss_count = 0, open_count = 0,
        win_rate = 0, avg_profit = 0, avg_loss = 0, total_profit_loss = 0,
        accuracy = 0, last_updated = 300 \<rparr>, tracker_two_closed)"
proof -
  have h: "performance tracker_two_closed ''sentiment'' = None"
    by (simp add: tracker_two_closed_def tracker_three_open_def tracker_defs)
  show ?thesis using h get_strategy_performance_missing [OF h] by simp
qed

text \<open>
  Claim C2, as stated, fails on the win rate: after two wins and one loss of one
  strategy the stored \<open>win_rate\<close> is 2/3 * 100 = 200/3, which is not rounded to one
  decimal and so is not 66.7.
\<close>

theorem win_rate_not_rounded:
  "win_rate (the (performance tracker_all_closed ''momentum'')) = 200 / 3 \<and>
   win_count (the (performance tracker_all_closed ''momentum'')) = 2 \<and>
   loss_count (the (performance tracker_all_closed ''momentum'')) = 1 \<and>
   win_rate (the (performance tracker_all_closed ''momentum'')) \<noteq> 667 / 10"
  by (simp add: tracker_all_closed_def tracker_two_closed_def tracker_three_open_def tracker_defs)

text \<open>
  Claim C2, amended. A recommendation recorded under a fresh id and then closed with
  exit price \<open>X\<close>: the update succeeds; the stored result is \<open>win\<close> iff the action is YES
  and \<open>X\<close> is above the entry price, or the action is not YES (NO, and any other string,
  which the code treats as NO) and \<open>X\<close> is below it, else \<open>loss\<close>; the profit is
  \<open>X - entry\<close> for YES and \<open>entry - X\<close> otherwise; the strategy's aggregate is recomputed
  from all its records, and with two wins and one loss its win rate is exactly 200/3
  (66.66..., not rounded).
\<close>

theorem record_then_close:
  assumes fresh: "rid \<notin> ledger_ids tr"
    and rid: "rid = (case given_id rc of Some i \<Rightarrow> i | None \<Rightarrow> gen_id)"
    and strat: "strat = (case strategy rc of Some s \<Rightarrow> s | None \<Rightarrow> ''unknown'')"
    and upd: "update_recommendation_status (record_recommendation tr (Some rc) gen_id now1)
                rid ''closed'' (Some X) nt now2 = (ok, tr2)"
  shows "ok \<and>
    (\<exists>r. find_record rid (recommendations tr2) = Some r \<and>
       status r = ''closed'' \<and> exit_price r = Some X \<and>
       result r = Some (if (action rc = ''YES'' \<and> X > probability rc) \<or>
                           (action rc \<noteq> ''YES'' \<and> X < probability rc)
                        then ''win'' else ''loss'') \<and>
       profit_loss r = Some (if action rc = ''YES'' then X - probability rc
                             else probability rc - X)) \<and>
    (\<exists>recs. map_of (recommendations tr2) strat = Some recs \<and>
       performance tr2 strat = Some (compute_aggregate strat recs now2) \<and>
       (length (filter (\<lambda>r. result r = Some ''win'') recs) = 2 \<and>
        length (filter (\<lambda>r. result r = Some ''loss'') recs) = 1 \<longrightarrow>
        win_rate (compute_aggregate strat recs now2) = 200 / 3))"
proof -
  define x where "x = \<lparr> rec_id = rid, rec_market_id = market_id rc, rec_strategy = strat,
      rec_action = action rc, entry_price = probability rc, rec_target_exit = target_exit rc,
      rec_stop_loss = stop_loss rc, rec_confidence = confidence rc, timestamp = now1,
      status = ''open'', exit_price = None, exit_timestamp = None, result = None,
      profit_loss = None, rec_notes = [] \<rparr>"
  define f where "f = apply_update ''closed'' (Some X) nt now2"
  define l where "l = recommendations tr"
  have tr1: "recommendations (record_recommendation tr (Some rc) gen_id now1) = append_record strat x l"
    by (simp add: record_recommendation_def Let_def x_def l_def rid strat)
  have fr: "\<forall>(s, rs) \<in> set l. rid \<notin> rec_id ` set rs"
    using fresh by (simp add: ledger_ids_iff l_def)
  have xid: "rec_id x = rid" by (simp add: x_def)
  have fid: "rec_id (f x) = rid" by (simp add: f_def apply_update_id xid)
  have led: "update_in_ledger rid f (append_record strat x l) = Some (strat, append_record strat (f x) l)"
    by (rule update_in_ledger_append_fresh [OF fr xid])
  define recs where "recs = (case map_of l strat of None \<Rightarrow> [] | Some rs \<Rightarrow> rs) @ [f x]"
  have mo: "map_of (append_record strat (f x) l) strat = Some recs"
    by (simp add: map_of_append_record recs_def)
  from upd have ok: "ok"
    and tr2: "tr2 = update_strategy_performance
        ((record_recommendation tr (Some rc) gen_id now1)\<lparr>recommendations := append_record strat (f x) l\<rparr>) strat now2"
    by (simp_all add: update_recommendation_status_def tr1 led f_def [symmetric])
  have l2: "recommendations tr2 = append_record strat (f x) l"
    by (simp add: tr2 update_strategy_performance_def mo)
  have p2: "performance tr2 strat = Some (compute_aggregate strat recs now2)"
    by (simp add: tr2 update_strategy_performance_def mo)
  have found: "find_record rid (recommendations tr2) = Some (f x)"
    by (simp add: l2 find_record_append_fresh [OF fr fid])
  have fields: "status (f x) = ''closed'' \<and> exit_price (f x) = Some X \<and>
       result (f x) = Some (if (action rc = ''YES'' \<and> X > probability rc) \<or>
                           (action rc \<noteq> ''YES'' \<and> X < probability rc)
                        then ''win'' else ''loss'') \<and>
       profit_loss (f x) = Some (if action rc = ''YES'' then X - probability rc
                             else probability rc - X)"
    by (simp add: f_def x_def apply_update_def Let_def split: option.splits)
  have rate: "length (filter (\<lambda>r. result r = Some ''win'') recs) = 2 \<and>
        length (filter (\<lambda>r. result r = Some ''loss'') recs) = 1 \<longrightarrow>
        win_rate (compute_aggregate strat recs now2) = 200 / 3"
    by (simp add: compute_aggregate_def Let_def)
  from ok found fields mo p2 rate l2 show ?thesis by simp
qed

theorem record_then_close_witness:
  "''r2'' \<notin> ledger_ids tracker_win_loss \<and>
   (let tr2 = snd (update_recommendation_status
                (record_recommendation tracker_win_loss (Some (mk_rec ''r2'' ''KXBTC-B'' ''NO'' 40)) ''g2'' 101)
                ''r2'' ''closed'' (Some 30) None 202)
    in map_option result (find_record ''r2'' (recommendations tr2)) = Some (Some ''win'') \<and>
       map_option profit_loss (find_record ''r2'' (recommendations tr2)) = Some (Some 10) \<and>
       map_option win_rate (performance tr2 ''momentum'') = Some (200 / 3))"
proof -
  have h1: "''r2'' \<notin> ledger_ids tracker_win_loss"
    by (simp add: ledger_ids_iff ex_defs tracker_defs)
  have h2: "''r2'' = (case given_id (mk_rec ''r2'' ''KXBTC-B'' ''NO'' 40) of Some i \<Rightarrow> i | None \<Rightarrow> ''g2'')"
    by (simp add: mk_rec_def)
  have h3: "''momentum'' = (case strategy (mk_rec ''r2'' ''KXBTC-B'' ''NO'' 40) of Some s \<Rightarrow> s | None \<Rightarrow> ''unknown'')"
    by (simp add: mk_rec_def)
  obtain ok tr2 where h4: "update_recommendation_status
                (record_recommendation tracker_win_loss (Some (mk_rec ''r2'' ''KXBTC-B'' ''NO'' 40)) ''g2'' 101)
                ''r2'' ''closed'' (Some 30) None 202 = (ok, tr2)"
    by (cases "update_recommendation_status
                (record_recommendation tracker_win_loss (Some (mk_rec ''r2'' ''KXBTC-B'' ''NO'' 40)) ''g2'' 101)
                ''r2'' ''closed'' (Some 30) None 202")
  have tr2: "tr2 = snd (update_recommendation_status
                (record_recommendation tracker_win_loss (Some (mk_rec ''r2'' ''KXBTC-B'' ''NO'' 40)) ''g2'' 101)
                ''r2'' ''closed'' (Some 30) None 202)"
    by (simp add: h4)
  from record_then_close [OF h1 h2 h3 h4]
  obtain r recs where r: "find_record ''r2'' (recommendations tr2) = Some r"
     "result r = Some ''win''" "profit_loss r = Some 10"
    and recs: "map_of (recommendations tr2) ''momentum'' = Some recs"
       "performance tr2 ''momentum'' = Some (compute_aggregate ''momentum'' recs 202)"
       "length (filter (\<lambda>r. result r = Some ''win'') recs) = 2 \<and>
        length (filter (\<lambda>r. result r = Some ''loss'') recs) = 1 \<longrightarrow>
        win_rate (compute_aggregate ''momentum'' recs 202) = 200 / 3"
    by (auto simp: mk_rec_def)
  have "map_of (recommendations tr2) ''momentum'' = Some recs \<Longrightarrow>
        length (filter (\<lambda>r. result r = Some ''win'') recs) = 2 \<and>
        length (filter (\<lambda>r. result r = Some ''loss'') recs) = 1"
    unfolding tr2 by (auto simp add: ex_defs tracker_defs)
  with recs have "map_option win_rate (performance tr2 ''momentum'') = Some (200 / 3)" by simp
  with r h1 show ?thesis unfolding tr2 [symmetric] by (simp add: Let_def)
qed

text \<open>
  Claim C5, as stated, fails: a closed record is reopened by an update to \<open>open\<close>, and
  a second close with another exit price replaces its result.
\<close>

theorem closed_is_not_terminal:
  "fst (update_recommendation_status tracker_all_closed ''r1'' ''open'' None None 300) \<and>
   map_option status (find_record ''r1'' (recommendations tracker_all_closed)) = Some ''closed'' \<and>
   map_option status (find_record ''r1'' (recommendations
      (snd (update_recommendation_status tracker_all_closed ''r1'' ''open'' None None 300)))) = Some ''open'' \<and>
   map_option result (find_record ''r1'' (recommendations tracker_all_closed)) = Some (Some ''win'') \<and>
   map_option result (find_record ''r1'' (recommendations
      (snd (update_recommendation_status tracker_all_closed ''r1'' ''closed'' (Some 10) None 300)))) = Some (Some ''loss'')"
  by (simp add: tracker_all_closed_def tracker_two_closed_def tracker_three_open_def tracker_defs)

text \<open>
  Claim C5, amended. The update does not look at the current status: on any record
  found, whatever its status, the status becomes the one supplied; exit price, result
  and profit are kept when no exit price is supplied and recomputed from the entry
  price when one is.
\<close>

theorem update_overwrites_in_any_status:
  assumes "find_record rid (recommendations tr) = Some r"
  shows "\<exists>tr' r'. update_recommendation_status tr rid new_status xp nt now = (True, tr') \<and>
     find_record rid (recommendations tr') = Some r' \<and>
     r' = apply_update new_status xp nt now r \<and>
     status r' = new_status \<and>
     (case xp of
        None \<Rightarrow> exit_price r' = exit_price r \<and> result r' = result r \<and> profit_loss r' = profit_loss r
      | Some x \<Rightarrow> exit_price r' = Some x \<and>
          result r' = Some (if rec_action r = ''YES'' then (if x > entry_price r then ''win'' else ''loss'')
                            else (if x < entry_price r then ''win'' else ''loss'')) \<and>
          profit_loss r' = Some (if rec_action r = ''YES'' then x - entry_price r else entry_price r - x))"
proof -
  define f where "f = apply_update new_status xp nt now"
  have "\<And>y. rec_id (f y) = rec_id y" by (simp add: f_def apply_update_id)
  with assms obtain s l' where led: "update_in_ledger rid f (recommendations tr) = Some (s, l')"
    and found: "find_record rid l' = Some (f r)"
    using update_in_ledger_found by blast
  have rl: "recommendations (update_strategy_performance (tr\<lparr>recommendations := l'\<rparr>) s now) = l'"
    by (simp add: update_strategy_performance_def split: option.splits)
  have upd: "update_recommendation_status tr rid new_status xp nt now =
      (True, update_strategy_performance (tr\<lparr>recommendations := l'\<rparr>) s now)"
    by (simp add: update_recommendation_status_def f_def [symmetric] led)
  have fields: "status (f r) = new_status \<and>
     (case xp of
        None \<Rightarrow> exit_price (f r) = exit_price r \<and> result (f r) = result r \<and> profit_loss (f r) = profit_loss r
      | Some x \<Rightarrow> exit_price (f r) = Some x \<and>
          result (f r) = Some (if rec_action r = ''YES'' then (if x > entry_price r then ''win'' else ''loss'')
                            else (if x < entry_price r then ''win'' else ''loss'')) \<and>
          profit_loss (f r) = Some (if rec_action r = ''YES'' then x - entry_price r else entry_price r - x))"
    by (simp add: f_def apply_update_def Let_def split: option.splits)
  from rl found have found': "find_record rid (recommendations
      (update_strategy_performance (tr\<lparr>recommendations := l'\<rparr>) s now)) = Some (f r)"
    by simp
  from upd found' fields show ?thesis unfolding f_def by blast
qed

theorem update_overwrites_in_any_status_witness:
  "\<exists>r. find_record ''r1'' (recommendations tracker_all_closed) = Some r \<and> status r = ''closed'' \<and>
     (\<exists>tr' r'. update_recommendation_status tracker_all_closed ''r1'' ''open'' None None 300 = (True, tr') \<and>
        find_record ''r1'' (recommendations tr') = Some r' \<and> status r' = ''open'' \<and>
        exit_price r' = exit_price r \<and> result r' = result r \<and> profit_loss r' = profit_loss r)"
proof -
  obtain r where h: "find_record ''r1'' (recommendations tracker_all_closed) = Some r"
    and st: "status r = ''closed''"
    by (simp add: ex_defs tracker_defs)
  from update_overwrites_in_any_status [OF h, of "''open''" None None 300] h st
  show ?thesis by auto
qed

section \<open>Properties of the scorers and the blend\<close>

lemma set_py_take: "set (py_take n xs) \<subseteq> set xs"
  by (auto simp: py_take_def dest: in_set_takeD)

lemma length_py_take: "0 \<le> n \<Longrightarrow> int (length (py_take n xs)) \<le> n"
  by (simp add: py_take_def)

lemma set_py_sorted_rev [simp]: "set (py_sorted_rev k xs) = set xs"
  by (simp add: py_sorted_rev_def)

lemma py_sorted_rev_Nil [simp]: "py_sorted_rev k [] = []"
  by (simp add: py_sorted_rev_def)

lemma set_sort_by_confidence: "set (sort_by_confidence xs) = set xs"
  by (simp add: sort_by_confidence_def)

lemma filter_by_risk_level_low:
  "r \<in> set (filter_by_risk_level recs ''low'') \<Longrightarrow> confidence r = ''High''"
  by (simp add: filter_by_risk_level_def)

lemma filter_by_risk_level_medium:
  "r \<in> set (filter_by_risk_level recs ''medium'') \<Longrightarrow> confidence r \<noteq> ''Low''"
  by (simp add: filter_by_risk_level_def)

lemma strategy_manager_result:
  assumes "strategy_manager_get_recommendations vol sent strat markets n risk = Inr recs"
  shows "recs = [] \<or> (\<exists>cands. recs = py_take n (sort_by_confidence (filter_by_risk_level cands risk)))"
  using assms
  by (auto simp: strategy_manager_get_recommendations_def split: if_splits option.splits sum.splits)

lemma py_take_all: "int (length xs) \<le> n \<Longrightarrow> py_take n xs = xs"
  by (simp add: py_take_def)

lemmas rule_defs = rule_based_generate_recommendations_def generate_momentum_recommendations_def
  generate_mean_reversion_recommendations_def py_take_def py_sorted_rev_def
  momentum_candidate_def mean_reversion_candidate_def momentum_build_def mean_reversion_build_def
  mk_market_def Let_def

lemmas arb_defs = strategy_manager_get_recommendations_def strategy_candidates_def
  arbitrage_analyze_def group_by_series_def TARGET_SERIES_def analyze_price_range_arbitrage_def
  analyze_index_arbitrage_def price_range_pair_def index_pair_def extract_strike_price_def
  py_float_def digit_val_def filter_by_risk_level_def sort_by_confidence_def confidence_order_def
  py_sorted_rev_def py_take_def btc_markets_def quiet_scorer_def Let_def

lemmas hybrid_defs = generate_hybrid_strategy_recommendations_def hybrid_openai_lists_def
  int_of_tenths_def blend_unique_def confidence_order_def no_openai_def

lemmas lower_defs = py_lower_def lower_char_def valid_strategies_def valid_strategies_ai_def
  valid_risk_levels_def

lemma dedup_loop_inv:
  assumes "dedup_loop n rs U S = (U', S')"
    and "distinct (map market_id U)"
    and "set S = market_id ` set U"
    and "int (length U) < n"
  shows "distinct (map market_id U') \<and> set S' = market_id ` set U' \<and>
         int (length U') \<le> n \<and> set S \<subseteq> set S' \<and>
         (int (length U') < n \<longrightarrow> market_id ` set rs \<subseteq> set S')"
  using assms
proof (induction n rs U S rule: dedup_loop.induct)
  case (1 n U S)
  then show ?case by simp
next
  case (2 n r rs U S)
  show ?case
  proof (cases "market_id r \<in> set S")
    case True
    with 2 have "dedup_loop n rs U S = (U', S')" by simp
    with 2 True have "distinct (map market_id U') \<and> set S' = market_id ` set U' \<and>
         int (length U') \<le> n \<and> set S \<subseteq> set S' \<and>
         (int (length U') < n \<longrightarrow> market_id ` set rs \<subseteq> set S')"
      by blast
    with True show ?thesis by auto
  next
    case False
    note fresh = False
    have d: "distinct (map market_id (U @ [r]))"
      using "2.prems"(2,3) fresh by auto
    have s: "set (market_id r # S) = market_id ` set (U @ [r])"
      using "2.prems"(3) by auto
    show ?thesis
    proof (cases "int (length (U @ [r])) \<ge> n")
      case True
      with fresh "2.prems"(1) have "U' = U @ [r]" "S' = market_id r # S" by simp_all
      with d s True "2.prems"(4) show ?thesis by auto
    next
      case False
      with fresh "2.prems"(1) have "dedup_loop n rs (U @ [r]) (market_id r # S) = (U', S')"
        by simp
      moreover from False have "int (length (U @ [r])) < n" by simp
      ultimately have "distinct (map market_id U') \<and> set S' = market_id ` set U' \<and>
         int (length U') \<le> n \<and> set (market_id r # S) \<subseteq> set S' \<and>
         (int (length U') < n \<longrightarrow> market_id ` set rs \<subseteq> set S')"
        using "2.IH"(1) [OF fresh False] d s by blast
      then show ?thesis by auto
    qed
  qed
qed

lemma blend_unique_bounded_distinct:
  assumes "1 \<le> n"
  shows "int (length (blend_unique n combined)) \<le> n \<and>
         distinct (map market_id (blend_unique n combined))"
proof -
  obtain U S where ds: "dedup_loop n combined [] [] = (U, S)"
    by (cases "dedup_loop n combined [] []")
  from dedup_loop_inv [OF ds] assms
  have inv: "distinct (map market_id U)" "int (length U) \<le> n"
    "int (length U) < n \<longrightarrow> market_id ` set combined \<subseteq> set S"
    by auto
  show ?thesis
  proof (cases "int (length U) < n")
    case True
    with inv have "filter (\<lambda>r. market_id r \<notin> set S) combined = []"
      by (auto simp: filter_empty_conv)
    with ds True have "blend_unique n combined = U"
      by (simp add: blend_unique_def)
    with inv show ?thesis by simp
  next
    case False
    with ds have "blend_unique n combined = U"
      by (simp add: blend_unique_def)
    with inv show ?thesis by simp
  qed
qed

lemma strategy_manager_bounded:
  assumes "0 \<le> n"
    and "strategy_manager_get_recommendations vol sent strat markets n risk = Inr recs"
  shows "int (length recs) \<le> n"
  using strategy_manager_result [OF assms(2)] assms(1) length_py_take [OF assms(1)]
  by auto

lemma sorted_le_last:
  assumes "sorted zs" and "z \<in> set zs"
  shows "z \<le> last zs"
  using assms by (induction zs) (auto)

lemma py_sorted_rev_strict_max_first:
  assumes "m \<in> set xs" and "\<forall>x \<in> set xs. x \<noteq> m \<longrightarrow> k x < k m"
  shows "\<exists>rest. py_sorted_rev k xs = m # rest"
proof -
  define ys where "ys = sort_key k (rev xs)"
  have s: "set ys = set xs" and so: "sorted (map k ys)"
    by (simp_all add: ys_def)
  from assms(1) s have ne: "ys \<noteq> []" by auto
  then have lin: "last ys \<in> set xs" using s last_in_set by blast
  from assms(1) s have "k m \<in> set (map k ys)" by simp
  with so have "k m \<le> last (map k ys)" by (rule sorted_le_last)
  with ne have "k m \<le> k (last ys)" by (simp add: last_map)
  with assms(2) lin have "last ys = m" by force
  with ne have "ys = butlast ys @ [m]" by (metis append_butlast_last_id)
  then have "rev ys = m # rev (butlast ys)" by (metis rev.simps(2) rev_rev_ident rev_append rev_singleton_conv append_Cons append_Nil)
  then show ?thesis unfolding py_sorted_rev_def ys_def by blast
qed

lemma scan_markets_prefix: "\<exists>more. scan_markets n body ms acc = acc @ more"
proof (induction ms arbitrary: acc)
  case Nil
  then show ?case by simp
next
  case (Cons a ms)
  show ?case
  proof (cases "body a")
    case None
    with Cons show ?thesis by simp
  next
    case (Some r)
    from Cons [of "acc @ [r]"] obtain more where "scan_markets n body ms (acc @ [r]) = (acc @ [r]) @ more"
      by blast
    with Some show ?thesis by (cases "int (length (acc @ [r])) \<ge> n") auto
  qed
qed

lemma scan_markets_first:
  assumes "body m = Some r"
  shows "\<exists>rest. scan_markets n body (m # ms) [] = r # rest"
  using assms scan_markets_prefix [of n body ms "[r]"] by auto

lemma py_take_Cons: "1 \<le> n \<Longrightarrow> py_take (n * 2) (x # xs) = x # py_take (n * 2 - 1) xs"
  by (auto simp: py_take_def take_Cons' nat_diff_distrib)

text \<open>
  Claim C9. On every market whose YES ask is 90 cents, at every risk level, the
  momentum scorer's candidate has action YES and confidence High and the
  mean-reversion scorer's candidate for the same market has action NO. Each scorer
  emits that candidate, as the first entry of its list, on every market list in which
  the market has the highest volume and the most extreme price (the market alone is
  such a list) when at least one recommendation is requested.
\<close>

theorem momentum_mean_reversion_disagree:
  assumes "yes_ask m = 90"
  shows "\<exists>r1 r2.
      momentum_candidate risk m = Some r1 \<and> mean_reversion_candidate risk m = Some r2 \<and>
      market_id r1 = mkt_id m \<and> action r1 = ''YES'' \<and> confidence r1 = ''High'' \<and>
      market_id r2 = mkt_id m \<and> action r2 = ''NO'' \<and>
      (\<forall>ms n. m \<in> set ms \<longrightarrow> 1 \<le> n \<longrightarrow>
         (\<forall>m' \<in> set ms. m' \<noteq> m \<longrightarrow>
            volume_24h m' < volume_24h m \<and> \<bar>yes_ask m' - 50\<bar> < 40) \<longrightarrow>
         (\<exists>rest1 rest2.
            generate_momentum_recommendations ms n risk = r1 # rest1 \<and>
            generate_mean_reversion_recommendations ms n risk = r2 # rest2))"
proof -
  obtain r1 where r1: "momentum_candidate risk m = Some r1"
    "market_id r1 = mkt_id m" "action r1 = ''YES''" "confidence r1 = ''High''"
    using assms by (simp add: momentum_candidate_def momentum_build_def Let_def)
  obtain r2 where r2: "mean_reversion_candidate risk m = Some r2"
    "market_id r2 = mkt_id m" "action r2 = ''NO''"
    using assms by (simp add: mean_reversion_candidate_def mean_reversion_build_def Let_def)
  have lists: "\<exists>rest1 rest2.
            generate_momentum_recommendations ms n risk = r1 # rest1 \<and>
            generate_mean_reversion_recommendations ms n risk = r2 # rest2"
    if mem: "m \<in> set ms" and n: "1 \<le> n"
      and top: "\<forall>m' \<in> set ms. m' \<noteq> m \<longrightarrow>
            volume_24h m' < volume_24h m \<and> \<bar>yes_ask m' - 50\<bar> < 40"
    for ms n
  proof -
    from top have "\<forall>x \<in> set ms. x \<noteq> m \<longrightarrow> volume_24h x < volume_24h m" by blast
    from py_sorted_rev_strict_max_first [OF mem this]
    obtain v where v: "py_sorted_rev volume_24h ms = m # v" by blast
    from top assms have "\<forall>x \<in> set ms. x \<noteq> m \<longrightarrow> \<bar>yes_ask x - 50\<bar> < \<bar>yes_ask m - 50\<bar>"
      by simp
    from py_sorted_rev_strict_max_first [OF mem this]
    obtain w where w: "py_sorted_rev (\<lambda>x. \<bar>yes_ask x - 50\<bar>) ms = m # w" by blast
    from scan_markets_first [where body = "momentum_candidate risk" and m = m and r = r1
        and n = n and ms = "py_take (n * 2 - 1) v"] r1(1)
    obtain rest1 where "generate_momentum_recommendations ms n risk = r1 # rest1"
      by (auto simp: generate_momentum_recommendations_def v py_take_Cons [OF n])
    moreover
    from scan_markets_first [where body = "mean_reversion_candidate risk" and m = m and r = r2
        and n = n and ms = "py_take (n * 2 - 1) w"] r2(1)
    obtain rest2 where "generate_mean_reversion_recommendations ms n risk = r2 # rest2"
      by (auto simp: generate_mean_reversion_recommendations_def w py_take_Cons [OF n])
    ultimately show ?thesis by blast
  qed
  from r1 r2 lists show ?thesis by blast
qed

theorem momentum_mean_reversion_disagree_witness:
  "yes_ask hot_market = 90 \<and> hot_market \<in> set crowd \<and>
   volume_24h (crowd ! 0) < volume_24h hot_market \<and> \<bar>yes_ask (crowd ! 0) - 50\<bar> < 40 \<and>
   crowd ! 1 = hot_market \<and>
   volume_24h (crowd ! 2) < volume_24h hot_market \<and> \<bar>yes_ask (crowd ! 2) - 50\<bar> < 40 \<and>
   length crowd = 3 \<and>
   (\<exists>r1 r2 rest1 rest2.
      momentum_candidate ''medium'' hot_market = Some r1 \<and>
      mean_reversion_candidate ''medium'' hot_market = Some r2 \<and>
      action r1 = ''YES'' \<and> confidence r1 = ''High'' \<and> action r2 = ''NO'' \<and>
      generate_momentum_recommendations crowd 2 ''medium'' = r1 # rest1 \<and>
      generate_mean_reversion_recommendations crowd 2 ''medium'' = r2 # rest2)"
proof -
  have h1: "yes_ask hot_market = 90" by (simp add: hot_market_def mk_market_def)
  have h2: "hot_market \<in> set crowd" by (simp add: crowd_def)
  have h3: "\<forall>m' \<in> set crowd. m' \<noteq> hot_market \<longrightarrow>
      volume_24h m' < volume_24h hot_market \<and> \<bar>yes_ask m' - 50\<bar> < 40"
    by (simp add: crowd_def hot_market_def mk_market_def)
  have h4: "(1::int) \<le> 2" by simp
  from momentum_mean_reversion_disagree [OF h1, of "''medium''"]
  obtain r1 r2 where a: "momentum_candidate ''medium'' hot_market = Some r1"
      "mean_reversion_candidate ''medium'' hot_market = Some r2"
      "action r1 = ''YES''" "confidence r1 = ''High''" "action r2 = ''NO''"
    and b: "\<forall>ms n. hot_market \<in> set ms \<longrightarrow> 1 \<le> n \<longrightarrow>
         (\<forall>m' \<in> set ms. m' \<noteq> hot_market \<longrightarrow>
            volume_24h m' < volume_24h hot_market \<and> \<bar>yes_ask m' - 50\<bar> < 40) \<longrightarrow>
         (\<exists>rest1 rest2.
            generate_momentum_recommendations ms n ''medium'' = r1 # rest1 \<and>
            generate_mean_reversion_recommendations ms n ''medium'' = r2 # rest2)"
    by blast
  from b h2 h3 h4 obtain rest1 rest2 where
    "generate_momentum_recommendations crowd 2 ''medium'' = r1 # rest1"
    "generate_mean_reversion_recommendations crowd 2 ''medium'' = r2 # rest2"
    by blast
  moreover have "volume_24h (crowd ! 0) < volume_24h hot_market \<and> \<bar>yes_ask (crowd ! 0) - 50\<bar> < 40 \<and>
   crowd ! 1 = hot_market \<and>
   volume_24h (crowd ! 2) < volume_24h hot_market \<and> \<bar>yes_ask (crowd ! 2) - 50\<bar> < 40 \<and>
   length crowd = 3"
    by (simp add: crowd_def hot_market_def mk_market_def)
  ultimately show ?thesis using a h1 h2 by blast
qed

text \<open>
  Claim C3, as stated, fails on the rule-based path: for risk level low the
  mean-reversion scorer returns a candidate of confidence Low, directly and through
  the hybrid model.
\<close>

theorem rule_based_ignores_risk_filter:
  "map confidence (rule_based_generate_recommendations [mk_market ''KXBTC-25APR0212-B100'' 90 12 5000]
      ''mean-reversion'' 5 ''low'') = [''Low''] \<and>
   map confidence (hybrid_generate_recommendations False no_openai
      [mk_market ''KXBTC-25APR0212-B100'' 90 12 5000] ''mean-reversion'' 5 ''low'') = [''Low'']"
  by (simp add: hybrid_generate_recommendations_def rule_defs)

text \<open>
  Claim C3, amended. Every list the strategy manager returns (arbitrage, volatility,
  sentiment, combined) holds only candidates of confidence High for risk level low,
  and no candidate of confidence Low for risk level medium, whatever the volatility
  and sentiment scorers return.
\<close>

theorem strategy_manager_respects_risk_level:
  assumes "strategy_manager_get_recommendations vol sent strat markets n risk = Inr recs"
    and "r \<in> set recs"
  shows "(risk = ''low'' \<longrightarrow> confidence r = ''High'') \<and>
         (risk = ''medium'' \<longrightarrow> confidence r \<noteq> ''Low'')"
proof -
  from strategy_manager_result [OF assms(1)] assms(2)
  obtain cands where "recs = py_take n (sort_by_confidence (filter_by_risk_level cands risk))"
    by auto
  with assms(2) have "r \<in> set (sort_by_confidence (filter_by_risk_level cands risk))"
    using set_py_take [of n "sort_by_confidence (filter_by_risk_level cands risk)"] by blast
  then have "r \<in> set (filter_by_risk_level cands risk)"
    by (simp add: set_sort_by_confidence)
  then show ?thesis
    using filter_by_risk_level_low filter_by_risk_level_medium by blast
qed

theorem strategy_manager_respects_risk_level_witness:
  "strategy_manager_get_recommendations quiet_scorer quiet_scorer ''arbitrage'' btc_markets 5 ''low''
     = Inr (projr (strategy_manager_get_recommendations quiet_scorer quiet_scorer
                    ''arbitrage'' btc_markets 5 ''low'')) \<and>
   hd (projr (strategy_manager_get_recommendations quiet_scorer quiet_scorer
                ''arbitrage'' btc_markets 5 ''low''))
     \<in> set (projr (strategy_manager_get_recommendations quiet_scorer quiet_scorer
                    ''arbitrage'' btc_markets 5 ''low'')) \<and>
   confidence (hd (projr (strategy_manager_get_recommendations quiet_scorer quiet_scorer
                ''arbitrage'' btc_markets 5 ''low''))) = ''High''"
proof -
  have h1: "strategy_manager_get_recommendations quiet_scorer quiet_scorer ''arbitrage'' btc_markets 5 ''low''
     = Inr (projr (strategy_manager_get_recommendations quiet_scorer quiet_scorer
                    ''arbitrage'' btc_markets 5 ''low''))"
    by (simp add: arb_defs)
  have h2: "hd (projr (strategy_manager_get_recommendations quiet_scorer quiet_scorer
                ''arbitrage'' btc_markets 5 ''low''))
     \<in> set (projr (strategy_manager_get_recommendations quiet_scorer quiet_scorer
                    ''arbitrage'' btc_markets 5 ''low''))"
    by (simp add: arb_defs)
  from strategy_manager_respects_risk_level [OF h1 h2] h1 h2 show ?thesis by blast
qed

text \<open>
  Claim C1, as stated, fails twice. With \<open>max_count = 0\<close> the hybrid blend returns one
  entry. The strategy manager does not deduplicate: the arbitrage scorer emits the
  middle market of three adjacent strikes once as the NO leg of the lower pair and once
  as the YES leg of the upper pair, and both entries are returned.
\<close>

theorem blend_not_always_bounded_unique:
  "length (generate_hybrid_strategy_recommendations False no_openai
             [mk_market ''KXBTC-25APR0212-B100'' 90 12 5000] 0 ''medium'') = 1 \<and>
   map_sum id (map market_id)
     (strategy_manager_get_recommendations quiet_scorer quiet_scorer ''arbitrage'' btc_markets 5 ''low'')
     = Inr [''KXBTC-25APR0212-B100'', ''KXBTC-25APR0212-B300'',
            ''KXBTC-25APR0212-B200'', ''KXBTC-25APR0212-B200'']"
  by (simp add: hybrid_defs rule_defs arb_defs)

text \<open>
  Claim C1, amended. For every market list, OpenAI model and risk level, the hybrid
  blend with \<open>max_count \<ge> 1\<close> returns at most \<open>max_count\<close> entries with pairwise distinct
  market ids; the strategy manager with \<open>max_count \<ge> 0\<close> returns at most \<open>max_count\<close>
  entries (their market ids need not be distinct).
\<close>

theorem blend_bounded_and_hybrid_unique:
  "(1 \<le> n \<longrightarrow>
      int (length (generate_hybrid_strategy_recommendations en om markets n risk)) \<le> n \<and>
      distinct (map market_id (generate_hybrid_strategy_recommendations en om markets n risk))) \<and>
   (0 \<le> n \<longrightarrow> strategy_manager_get_recommendations vol sent strat markets n risk = Inr recs \<longrightarrow>
      int (length recs) \<le> n)"
proof -
  have "1 \<le> n \<Longrightarrow>
      int (length (generate_hybrid_strategy_recommendations en om markets n risk)) \<le> n \<and>
      distinct (map market_id (generate_hybrid_strategy_recommendations en om markets n risk))"
    unfolding generate_hybrid_strategy_recommendations_def Let_def
    by (simp only: split_def) (rule blend_unique_bounded_distinct)
  then show ?thesis using strategy_manager_bounded by blast
qed

theorem blend_bounded_and_hybrid_unique_witness:
  "(1::int) \<le> 3 \<and>
   int (length (generate_hybrid_strategy_recommendations False no_openai btc_markets 3 ''low'')) \<le> 3 \<and>
   distinct (map market_id
     (generate_hybrid_strategy_recommendations False no_openai btc_markets 3 ''low'')) \<and>
   (0::int) \<le> 3 \<and>
   strategy_manager_get_recommendations quiet_scorer quiet_scorer ''arbitrage'' btc_markets 3 ''low''
     = Inr (projr (strategy_manager_get_recommendations quiet_scorer quiet_scorer
                    ''arbitrage'' btc_markets 3 ''low'')) \<and>
   int (length (projr (strategy_manager_get_recommendations quiet_scorer quiet_scorer
                    ''arbitrage'' btc_markets 3 ''low''))) \<le> 3"
proof -
  have h: "strategy_manager_get_recommendations quiet_scorer quiet_scorer ''arbitrage'' btc_markets 3 ''low''
     = Inr (projr (strategy_manager_get_recommendations quiet_scorer quiet_scorer
                    ''arbitrage'' btc_markets 3 ''low''))"
    by (simp add: arb_defs)
  from blend_bounded_and_hybrid_unique [where n = 3 and en = False and om = no_openai
      and markets = btc_markets and risk = "''low''" and vol = quiet_scorer and sent = quiet_scorer
      and strat = "''arbitrage''"
      and recs = "projr (strategy_manager_get_recommendations quiet_scorer quiet_scorer
                    ''arbitrage'' btc_markets 3 ''low'')"] h
  show ?thesis by simp
qed

text \<open>
  The order \<open>_sort_by_confidence\<close> produces, for every input: confidence rank
  descending, and cost ascending among equal ranks. In the hybrid blend the fill step
  never adds an entry: when it runs, every market id of the combined list has been
  seen, so the blend is the result of the deduplication loop.
\<close>

lemma py_sorted_rev_descending:
  "sorted_wrt (\<lambda>a b. k b \<le> k a) (py_sorted_rev k xs)"
proof -
  have "sorted (map k (sort_key k (rev xs)))" by simp
  then have "sorted_wrt (\<lambda>a b. k a \<le> k b) (sort_key k (rev xs))"
    by (simp add: sorted_map)
  then show ?thesis
    by (simp add: py_sorted_rev_def sorted_wrt_rev)
qed

lemma sort_by_confidence_order:
  "sorted_wrt (\<lambda>a b. confidence_order (confidence b) < confidence_order (confidence a) \<or>
                     confidence_order (confidence b) = confidence_order (confidence a) \<and>
                     cost a \<le> cost b)
     (sort_by_confidence recs)"
  unfolding sort_by_confidence_def
  by (rule sorted_wrt_mono_rel [OF _ py_sorted_rev_descending]) auto

lemma blend_unique_is_dedup:
  "blend_unique n combined = fst (dedup_loop n combined [] [])"
proof -
  obtain U S where ds: "dedup_loop n combined [] [] = (U, S)"
    by (cases "dedup_loop n combined [] []")
  show ?thesis
  proof (cases "int (length U) < n")
    case True
    then have "0 < n" by linarith
    with dedup_loop_inv [OF ds] True have "market_id ` set combined \<subseteq> set S" by auto
    then have "filter (\<lambda>r. market_id r \<notin> set S) combined = []"
      by (auto simp: filter_empty_conv)
    with ds True show ?thesis by (simp add: blend_unique_def)
  next
    case False
    with ds show ?thesis by (simp add: blend_unique_def)
  qed
qed

text \<open>
  Claim C7 at the three range markets, all of whose arbitrage candidates have
  confidence High: the arbitrage scorer emits the costs 0.25, 0.60, 0.42, 0.40 in this
  order and the strategy manager returns them as 0.25, 0.40, 0.42, 0.60. Among equal
  confidence the smaller cost comes first.
\<close>

theorem cost_tie_break_is_ascending:
  "map_sum id (map (\<lambda>r. (confidence r, cost r)))
     (strategy_manager_get_recommendations quiet_scorer quiet_scorer ''arbitrage'' btc_markets 5 ''low'')
     = Inr [(''High'', 25 / 100), (''High'', 40 / 100), (''High'', 42 / 100), (''High'', 60 / 100)] \<and>
   map (\<lambda>r. (confidence r, cost r)) (arbitrage_analyze btc_markets)
     = [(''High'', 25 / 100), (''High'', 60 / 100), (''High'', 42 / 100), (''High'', 40 / 100)]"
  by (simp add: arb_defs)

section \<open>Properties of the recommendation systems\<close>

text \<open>
  Claim C6, as stated, fails for the empty list: a first call that generates no
  recommendation writes the empty list to the cache, and a second call inside the TTL
  treats it as a miss and generates again, here with one recommendation.
\<close>

theorem empty_result_is_regenerated:
  "map_sum id fst first_call_flat = Inr [] \<and>
   map_sum id (\<lambda>p. map market_id (fst p))
     (ai_get_recommendations ai_cfg (snd (projr first_call_flat))
        (Inr [hot_market]) no_openai True 1060 ''momentum'' 5 ''medium'' False)
     = Inr [''KXBTC-25APR0212-B100'']"
  by (simp add: first_call_flat_def flat_market_def hot_market_def ai_get_recommendations_def
      ai_cfg_def lower_defs get_cached_recommendations_def cache_recommendations_ai_def
      cache_key_def hybrid_generate_recommendations_def rule_defs)

text \<open>
  Claim C6, amended. With the cache enabled and its write succeeding, let a first call
  generate its result (a forced refresh, or a miss) at time \<open>now1\<close>. If that result is
  not empty and has at most \<open>max_count\<close> entries, then a second call with the same
  strategy, \<open>max_count\<close> and risk level and \<open>force_refresh = False\<close>, at a time \<open>now2\<close> with
  \<open>now2 - now1 \<le> ttl\<close>, returns the identical list and leaves the cache as it is,
  whatever the market data source and the OpenAI model would answer at the second
  call: nothing is regenerated.
\<close>

theorem second_call_served_from_cache:
  assumes en: "cache_enabled cfg"
    and first: "ai_get_recommendations cfg cache0 fetch1 om1 True now1 strat n risk force1
                  = Inr (recs1, cache1)"
    and generated: "force1 \<or> get_cached_recommendations cfg cache0 strat risk now1 \<in> {None, Some []}"
    and nonempty: "recs1 \<noteq> []"
    and fits: "int (length recs1) \<le> n"
    and within: "now2 - now1 \<le> cache_ttl cfg"
  shows "ai_get_recommendations cfg cache1 fetch2 om2 wok2 now2 strat n risk False
           = Inr (recs1, cache1)"
proof -
  from first have v1: "py_lower strat \<in> set valid_strategies_ai"
    and v2: "py_lower risk \<in> set valid_risk_levels"
    by (auto simp: ai_get_recommendations_def split: if_splits)
  from generated have miss: "(if cache_enabled cfg \<and> \<not> force1
                  then (case get_cached_recommendations cfg cache0 strat risk now1 of
                          None \<Rightarrow> None
                        | Some cached \<Rightarrow> if cached \<noteq> [] then Some cached else None)
                  else None) = None"
    by auto
  from first v1 v2 en have c1: "cache1 = cache_recommendations_ai cache0 True strat risk recs1 now1"
    unfolding ai_get_recommendations_def miss
    by (auto simp: Let_def split: sum.splits)
  have hit: "get_cached_recommendations cfg cache1 strat risk now2 = Some recs1"
    using within by (simp add: c1 get_cached_recommendations_def cache_recommendations_ai_def)
  show ?thesis
    using v1 v2 en nonempty
    by (simp add: ai_get_recommendations_def hit py_take_all [OF fits])
qed

theorem second_call_served_from_cache_witness:
  "cache_enabled ai_cfg \<and>
   first_call = Inr (fst (projr first_call), snd (projr first_call)) \<and>
   get_cached_recommendations ai_cfg Map.empty ''momentum'' ''medium'' 1000 = None \<and>
   fst (projr first_call) \<noteq> [] \<and>
   int (length (fst (projr first_call))) \<le> 5 \<and>
   (1060::rat) - 1000 \<le> cache_ttl ai_cfg \<and>
   ai_get_recommendations ai_cfg (snd (projr first_call)) (Inl (Exception ''connection refused''))
     failing_models False 1060 ''momentum'' 5 ''medium'' False
     = Inr (fst (projr first_call), snd (projr first_call))"
proof -
  have fc: "first_call = Inr (fst (projr first_call), snd (projr first_call))"
    by (simp add: first_call_def hot_market_def ai_get_recommendations_def
      ai_cfg_def lower_defs get_cached_recommendations_def Let_def)
  have h1: "cache_enabled ai_cfg" by (simp add: ai_cfg_def)
  have h2: "ai_get_recommendations ai_cfg Map.empty (Inr [hot_market]) no_openai True 1000
     ''momentum'' 5 ''medium'' False = Inr (fst (projr first_call), snd (projr first_call))"
    using fc by (simp add: first_call_def)
  have miss: "get_cached_recommendations ai_cfg Map.empty ''momentum'' ''medium'' 1000 = None"
    by (simp add: get_cached_recommendations_def)
  have h3: "False \<or> get_cached_recommendations ai_cfg Map.empty ''momentum'' ''medium'' 1000
      \<in> {None, Some []}"
    using miss by simp
  have recs: "fst (projr first_call) = generate_momentum_recommendations [hot_market] 5 ''medium''"
    by (simp add: first_call_def ai_get_recommendations_def ai_cfg_def lower_defs
        get_cached_recommendations_def hybrid_generate_recommendations_def
        rule_based_generate_recommendations_def Let_def)
  have h4: "fst (projr first_call) \<noteq> []"
    unfolding recs by (simp add: hot_market_def rule_defs)
  have h5: "int (length (fst (projr first_call))) \<le> 5"
    unfolding recs by (simp add: hot_market_def rule_defs)
  have h6: "(1060::rat) - 1000 \<le> cache_ttl ai_cfg" by (simp add: ai_cfg_def)
  from second_call_served_from_cache [OF h1 h2 h3 h4 h5 h6] fc h1 miss h4 h5 h6
  show ?thesis by blast
qed




end
